theory Spec2Isabelle
  imports Complex_Main
begin

section \<open>Python values, floats and exceptions\<close>

text \<open>
  A Python float is an IEEE double. A finite double is modelled by the real number it
  denotes; the two infinities and NaN are separate values, since JSON documents read by
  \<^verbatim>\<open>json.loads\<close> may carry \<^verbatim>\<open>Infinity\<close> and \<^verbatim>\<open>NaN\<close>. Comparisons are exact. Arithmetic
  on floats is taken over the reals, so its rounding is not modelled; the conversion
  of an integer to a float rounds as the code does.
\<close>

datatype pyfloat = Finite real | PosInf | NegInf | NaN

text \<open>The values a parsed JSON document holds: None, bool, int, float, str, list, dict.\<close>

datatype pyval =
    PNone
  | PBool bool
  | PInt int
  | PFloat pyfloat
  | PStr string
  | PList "pyval list"
  | PDict "(string \<times> pyval) list"

type_synonym pydict = "(string \<times> pyval) list"

text \<open>
  The subclasses of \<^verbatim>\<open>Exception\<close> that the program raises or that its library calls may
  raise. \<open>ExternalError\<close> stands for any other exception of an external component
  (joblib, scikit-learn, the classifier), with its message.
\<close>

datatype pyexc =
    ValueError
  | TypeError
  | OverflowError
  | AttributeError
  | IndexError
  | KeyError string
  | FileNotFoundError string
  | ExternalError string

text \<open>\<^verbatim>\<open>x < 0\<close>, \<^verbatim>\<open>x >= c\<close> and \<^verbatim>\<open>x > c\<close> on a float: every comparison with NaN is false.\<close>

fun float_lt :: "pyfloat \<Rightarrow> real \<Rightarrow> bool" where
  "float_lt (Finite r) c = (r < c)"
| "float_lt PosInf c = False"
| "float_lt NegInf c = True"
| "float_lt NaN c = False"

fun float_ge :: "pyfloat \<Rightarrow> real \<Rightarrow> bool" where
  "float_ge (Finite r) c = (r \<ge> c)"
| "float_ge PosInf c = True"
| "float_ge NegInf c = False"
| "float_ge NaN c = False"

text \<open>
  \<^verbatim>\<open>float(int)\<close> raises OverflowError when the integer rounds beyond the largest double,
  \<open>2 ^ 1024 - 2 ^ 971\<close>; under round-half-even that is every integer of magnitude at
  least \<open>2 ^ 1024 - 2 ^ 970\<close>.
\<close>

definition int_fits_float :: "int \<Rightarrow> bool" where
  "int_fits_float i = (\<bar>i\<bar> < 2 ^ 1024 - 2 ^ 970)"

text \<open>
  The value of \<^verbatim>\<open>float(int)\<close>: the nearest double, a tie going to the even mantissa. An
  integer of at most 53 bits is kept; a longer one keeps its 53 leading bits \<open>q\<close>, rounded
  by the bits \<open>r\<close> that are dropped.
\<close>

fun bit_length :: "nat \<Rightarrow> nat" where
  "bit_length n = (if n = 0 then 0 else Suc (bit_length (n div 2)))"

declare bit_length.simps [simp del]

definition double_of_int :: "int \<Rightarrow> int" where
  "double_of_int i =
     (let n = nat \<bar>i\<bar>;
          e = bit_length n - 53;
          q = n div 2 ^ e;
          r = n mod 2 ^ e;
          m = (if 2 * r > 2 ^ e \<or> (2 * r = 2 ^ e \<and> odd q) then q + 1 else q)
      in sgn i * int (m * 2 ^ e))"

text \<open>
  The builtin \<^verbatim>\<open>float(x)\<close>. Its parser of strings is a parameter \<open>str_float\<close>: \<open>None\<close>
  where \<^verbatim>\<open>float(s)\<close> raises ValueError, the parsed float otherwise.
\<close>

fun py_float :: "(string \<Rightarrow> pyfloat option) \<Rightarrow> pyval \<Rightarrow> pyexc + pyfloat" where
  "py_float str_float PNone = Inl TypeError"
| "py_float str_float (PBool b) = Inr (Finite (if b then 1 else 0))"
| "py_float str_float (PInt i) =
     (if int_fits_float i then Inr (Finite (real_of_int (double_of_int i)))
      else Inl OverflowError)"
| "py_float str_float (PFloat x) = Inr x"
| "py_float str_float (PStr s) =
     (case str_float s of None \<Rightarrow> Inl ValueError | Some x \<Rightarrow> Inr x)"
| "py_float str_float (PList xs) = Inl TypeError"
| "py_float str_float (PDict kvs) = Inl TypeError"

text \<open>
  \<^verbatim>\<open>x < 0\<close> on a JSON value: integers and booleans compare exactly, floats as above;
  None, str, list and dict are not ordered against an int and raise TypeError.
\<close>

fun py_lt_zero :: "pyval \<Rightarrow> pyexc + bool" where
  "py_lt_zero PNone = Inl TypeError"
| "py_lt_zero (PBool b) = Inr False"
| "py_lt_zero (PInt i) = Inr (i < 0)"
| "py_lt_zero (PFloat x) = Inr (float_lt x 0)"
| "py_lt_zero (PStr s) = Inl TypeError"
| "py_lt_zero (PList xs) = Inl TypeError"
| "py_lt_zero (PDict kvs) = Inl TypeError"

text \<open>\<^verbatim>\<open>d[k]\<close> on a dict: KeyError on a missing key.\<close>

definition getitem :: "pydict \<Rightarrow> string \<Rightarrow> pyexc + pyval" where
  "getitem d k = (case map_of d k of None \<Rightarrow> Inl (KeyError k) | Some v \<Rightarrow> Inr v)"

text \<open>\<^verbatim>\<open>str(n)\<close> of a natural number, for the f-string \<^verbatim>\<open>f'V{i}'\<close>.\<close>

fun digit_char :: "nat \<Rightarrow> char" where
  "digit_char n = char_of (48 + n)"

fun str_nat :: "nat \<Rightarrow> string" where
  "str_nat n =
     (if n < 10 then [digit_char n] else str_nat (n div 10) @ [digit_char (n mod 10)])"

declare str_nat.simps [simp del]


section \<open>ModelManager.validate\_input\<close>

text \<open>\<^verbatim>\<open>[f'V{i}' for i in range(1, 29)] + ['Amount']\<close>\<close>

definition required_fields :: "string list" where
  "required_fields = map (\<lambda>i. ''V'' @ str_nat i) [1..<29] @ [''Amount'']"

text \<open>
  The four messages of \<^verbatim>\<open>validate_input\<close>, by what they say: the list of missing fields,
  the field that is not a valid number, the negative amount, and the pass message.
\<close>

datatype vmsg =
    CamposNaoEncontrados "string list"
  | CampoNumeroInvalido string
  | AmountNegativo
  | DadosValidos

text \<open>
  The type-check loop. \<open>None\<close>: the loop ran to its end. \<open>Some r\<close>: it left the function
  with \<open>r\<close>, a returned pair or an exception that \<^verbatim>\<open>except (ValueError, TypeError)\<close> does
  not catch.
\<close>

fun check_types ::
  "(string \<Rightarrow> pyfloat option) \<Rightarrow> pydict \<Rightarrow> string list \<Rightarrow> (pyexc + bool \<times> vmsg) option"
where
  "check_types str_float dados [] = None"
| "check_types str_float dados (field # fields) =
     (case (case getitem dados field of Inl e \<Rightarrow> Inl e | Inr v \<Rightarrow> py_float str_float v) of
        Inl e \<Rightarrow>
          (if e = ValueError \<or> e = TypeError
           then Some (Inr (False, CampoNumeroInvalido field))
           else Some (Inl e))
      | Inr x \<Rightarrow> check_types str_float dados fields)"

definition validate_input ::
  "(string \<Rightarrow> pyfloat option) \<Rightarrow> pydict \<Rightarrow> pyexc + bool \<times> vmsg"
where
  "validate_input str_float dados =
     (let missing_fields = filter (\<lambda>field. map_of dados field = None) required_fields in
      if missing_fields \<noteq> [] then Inr (False, CamposNaoEncontrados missing_fields)
      else
        case check_types str_float dados required_fields of
          Some r \<Rightarrow> r
        | None \<Rightarrow>
            (case (case getitem dados ''Amount'' of Inl e \<Rightarrow> Inl e | Inr v \<Rightarrow> py_lt_zero v) of
               Inl e \<Rightarrow> Inl e
             | Inr True \<Rightarrow> Inr (False, AmountNegativo)
             | Inr False \<Rightarrow> Inr (True, DadosValidos)))"


section \<open>The external artifacts\<close>

text \<open>
  The classifier and the amount scaler are objects of external libraries, unpickled by
  \<^verbatim>\<open>joblib.load\<close>. Each is modelled by the methods the program calls on it, any of
  which may raise: \<^verbatim>\<open>predict\<close> and \<^verbatim>\<open>predict_proba\<close> of the classifier, \<^verbatim>\<open>transform\<close>
  of the scaler, all on a two-dimensional array (a list of rows).
\<close>

record classifier =
  clf_predict :: "pyfloat list list \<Rightarrow> pyexc + int list"
  clf_predict_proba :: "pyfloat list list \<Rightarrow> pyexc + pyfloat list list"

record amount_scaler =
  sc_transform :: "pyfloat list list \<Rightarrow> pyexc + pyfloat list list"

text \<open>\<^verbatim>\<open>xs[i]\<close> for an index \<open>i \<ge> 0\<close>: IndexError out of range.\<close>

definition py_index :: "'a list \<Rightarrow> nat \<Rightarrow> pyexc + 'a" where
  "py_index xs i = (if i < length xs then Inr (xs ! i) else Inl IndexError)"

text \<open>\<^verbatim>\<open>d.get(k, dflt)\<close>\<close>

definition dict_get :: "pydict \<Rightarrow> string \<Rightarrow> pyval \<Rightarrow> pyval" where
  "dict_get d k dflt = (case map_of d k of None \<Rightarrow> dflt | Some v \<Rightarrow> v)"


section \<open>ModelManager\<close>

text \<open>The fields of \<^verbatim>\<open>ModelManager\<close>; \<open>None\<close> is Python's \<^verbatim>\<open>None\<close>.\<close>

record model_manager =
  modelo :: "classifier option"
  scaler :: "amount_scaler option"
  feature_names :: "string list option"
  metadata :: "pydict option"
  model_loaded :: bool

text \<open>\<^verbatim>\<open>ModelManager.__init__\<close>\<close>

definition init_manager :: model_manager where
  "init_manager =
     \<lparr>modelo = None, scaler = None, feature_names = None, metadata = None,
      model_loaded = False\<rparr>"


section \<open>ModelManager.preprocess\_data\<close>

text \<open>The loop \<^verbatim>\<open>for i in range(1, 29): features.append(float(dados[f'V{i}']))\<close>.\<close>

fun collect_features ::
  "(string \<Rightarrow> pyfloat option) \<Rightarrow> pydict \<Rightarrow> nat list \<Rightarrow> pyexc + pyfloat list"
where
  "collect_features str_float dados [] = Inr []"
| "collect_features str_float dados (i # ns) =
     (case getitem dados (''V'' @ str_nat i) of
        Inl e \<Rightarrow> Inl e
      | Inr v \<Rightarrow>
          (case py_float str_float v of
             Inl e \<Rightarrow> Inl e
           | Inr x \<Rightarrow>
               (case collect_features str_float dados ns of
                  Inl e \<Rightarrow> Inl e
                | Inr xs \<Rightarrow> Inr (x # xs))))"

text \<open>
  The result is the one-row array \<^verbatim>\<open>np.array([features])\<close>. In
  \<^verbatim>\<open>self.scaler.transform([[float(dados['Amount'])]])[0][0]\<close> the attribute
  \<^verbatim>\<open>self.scaler.transform\<close> is looked up before the argument is evaluated.
\<close>

definition preprocess_data ::
  "(string \<Rightarrow> pyfloat option) \<Rightarrow> model_manager \<Rightarrow> pydict \<Rightarrow> pyexc + pyfloat list list"
where
  "preprocess_data str_float self dados =
     (case collect_features str_float dados [1..<29] of
        Inl e \<Rightarrow> Inl e
      | Inr features \<Rightarrow>
     (case scaler self of
        None \<Rightarrow> Inl AttributeError
      | Some sc \<Rightarrow>
     (case getitem dados ''Amount'' of
        Inl e \<Rightarrow> Inl e
      | Inr v \<Rightarrow>
     (case py_float str_float v of
        Inl e \<Rightarrow> Inl e
      | Inr a \<Rightarrow>
     (case sc_transform sc [[a]] of
        Inl e \<Rightarrow> Inl e
      | Inr t \<Rightarrow>
     (case py_index t 0 of
        Inl e \<Rightarrow> Inl e
      | Inr row \<Rightarrow>
     (case py_index row 0 of
        Inl e \<Rightarrow> Inl e
      | Inr amount_normalized \<Rightarrow> Inr [features @ [amount_normalized]])))))))"


section \<open>ModelManager.load\_models\<close>

definition base_paths :: "string list" where
  "base_paths = [''models/'', ''../models/'', ''./'']"

text \<open>The dict \<^verbatim>\<open>model_files\<close>, in its insertion order, which \<^verbatim>\<open>.items()\<close> follows.\<close>

definition model_files :: "(string \<times> string) list" where
  "model_files =
     [(''modelo'', ''modelo_fraude.pkl''),
      (''scaler'', ''scaler_amount.pkl''),
      (''features'', ''feature_names.pkl''),
      (''metadata'', ''modelo_metadata.pkl'')]"

text \<open>\<^verbatim>\<open>os.path.join(base, p)\<close> on POSIX, for two components.\<close>

definition os_path_join :: "string \<Rightarrow> string \<Rightarrow> string" where
  "os_path_join base p =
     (if p \<noteq> [] \<and> hd p = CHR ''/'' then p
      else if base = [] \<or> last base = CHR ''/'' then base @ p
      else base @ ''/'' @ p)"

text \<open>The inner loop over \<^verbatim>\<open>base_paths\<close>: the first path that exists, if any.\<close>

fun find_path :: "(string \<Rightarrow> bool) \<Rightarrow> string \<Rightarrow> string list \<Rightarrow> string option" where
  "find_path path_exists filename [] = None"
| "find_path path_exists filename (base_path # rest) =
     (let full_path = os_path_join base_path filename in
      if path_exists full_path then Some full_path
      else find_path path_exists filename rest)"

text \<open>
  The outer loop over \<^verbatim>\<open>model_files.items()\<close>, building \<^verbatim>\<open>model_paths\<close>. A file that
  is not found stores \<^verbatim>\<open>None\<close> for \<open>metadata\<close> and \<open>scaler\<close>, and raises FileNotFoundError
  for every other name.
\<close>

fun locate_models ::
  "(string \<Rightarrow> bool) \<Rightarrow> (string \<times> string) list \<Rightarrow> (string \<rightharpoonup> string option) \<Rightarrow>
   pyexc + (string \<rightharpoonup> string option)"
where
  "locate_models path_exists [] model_paths = Inr model_paths"
| "locate_models path_exists ((model_name, filename) # rest) model_paths =
     (case find_path path_exists filename base_paths of
        Some full_path \<Rightarrow>
          locate_models path_exists rest (model_paths(model_name \<mapsto> Some full_path))
      | None \<Rightarrow>
          (if model_name = ''metadata''
           then locate_models path_exists rest (model_paths(model_name \<mapsto> None))
           else if model_name = ''scaler''
           then locate_models path_exists rest (model_paths(model_name \<mapsto> None))
           else Inl (FileNotFoundError filename)))"

text \<open>
  What a call into joblib or scikit-learn may raise while an artifact is loaded: a
  subclass of \<^verbatim>\<open>Exception\<close>, or an exception outside \<^verbatim>\<open>Exception\<close> (unpickling runs the
  code the file names, which may call \<^verbatim>\<open>sys.exit\<close>; an interrupt may arrive during the
  read). The handler \<^verbatim>\<open>except Exception\<close> catches the first kind only.
\<close>

datatype base_exc = SystemExit | KeyboardInterrupt

datatype raised = Exc pyexc | BaseExc base_exc

text \<open>
  What \<^verbatim>\<open>load_models\<close> reads from outside: \<^verbatim>\<open>os.path.exists\<close>, \<^verbatim>\<open>joblib.load\<close> on
  each of the four files (typed by the use the program makes of the object), and
  \<^verbatim>\<open>StandardScaler().fit\<close>, whose import or fit may fail.
\<close>

record load_env =
  os_path_exists :: "string \<Rightarrow> bool"
  joblib_load_modelo :: "string \<Rightarrow> raised + classifier"
  joblib_load_scaler :: "string \<Rightarrow> raised + amount_scaler"
  joblib_load_features :: "string \<Rightarrow> raised + string list"
  joblib_load_metadata :: "string \<Rightarrow> raised + pydict"
  standard_scaler_fit :: "pyfloat list list \<Rightarrow> raised + amount_scaler"

text \<open>\<^verbatim>\<open>np.array([[0], [1], [25], [77], [2125.87]])\<close>\<close>

definition amount_sample :: "pyfloat list list" where
  "amount_sample =
     [[Finite 0], [Finite 1], [Finite 25], [Finite 77], [Finite 2125.87]]"

text \<open>\<^verbatim>\<open>[f'V{i}' for i in range(1, 29)] + ['Amount_Norm']\<close>\<close>

definition default_feature_names :: "string list" where
  "default_feature_names = map (\<lambda>i. ''V'' @ str_nat i) [1..<29] @ [''Amount_Norm'']"

text \<open>
  The default metadata. The last string is the Portuguese for "not available", whose
  two accented letters (a with tilde, i with acute) are given by their code points.
\<close>

definition default_metadata :: "string list \<Rightarrow> pydict" where
  "default_metadata names =
     [(''modelo_tipo'', PStr ''XGBoost''),
      (''versao_modelo'', PStr ''1.0.0''),
      (''numero_features'', PInt (int (length names))),
      (''data_treinamento'',
         PStr (''N'' @ [char_of (227::nat)] @ ''o dispon'' @ [char_of (237::nat)] @ ''vel''))]"

text \<open>
  The body of the \<^verbatim>\<open>try\<close>: the exception that left it, if any, and the manager as the
  assignments made so far have left it. A stored path is truthy when it is a non-empty
  string. \<^verbatim>\<open>model_paths['modelo']\<close> is never \<^verbatim>\<open>None\<close> here, since the search raises
  for a missing classifier; that branch is kept for totality.
\<close>

definition load_models_try ::
  "load_env \<Rightarrow> model_manager \<Rightarrow> raised option \<times> model_manager"
where
  "load_models_try env self =
     (case locate_models (os_path_exists env) model_files Map.empty of
        Inl e \<Rightarrow> (Some (Exc e), self)
      | Inr model_paths \<Rightarrow>
     (case (case model_paths ''modelo'' of
              None \<Rightarrow> Inl (Exc (KeyError ''modelo''))
            | Some None \<Rightarrow> Inl (Exc (ExternalError ''joblib.load(None)''))
            | Some (Some p) \<Rightarrow> joblib_load_modelo env p) of
        Inl x \<Rightarrow> (Some x, self)
      | Inr clf \<Rightarrow>
     (let self1 = self\<lparr>modelo := Some clf\<rparr> in
      case (case model_paths ''scaler'' of
              None \<Rightarrow> Inl (Exc (KeyError ''scaler''))
            | Some (Some (c # cs)) \<Rightarrow> joblib_load_scaler env (c # cs)
            | Some _ \<Rightarrow> standard_scaler_fit env amount_sample) of
        Inl x \<Rightarrow> (Some x, self1)
      | Inr sc \<Rightarrow>
     (let self2 = self1\<lparr>scaler := Some sc\<rparr> in
      case (case model_paths ''features'' of
              None \<Rightarrow> Inl (Exc (KeyError ''features''))
            | Some (Some (c # cs)) \<Rightarrow> joblib_load_features env (c # cs)
            | Some _ \<Rightarrow> Inr default_feature_names) of
        Inl x \<Rightarrow> (Some x, self2)
      | Inr names \<Rightarrow>
     (let self3 = self2\<lparr>feature_names := Some names\<rparr> in
      case (case model_paths ''metadata'' of
              None \<Rightarrow> Inl (Exc (KeyError ''metadata''))
            | Some (Some (c # cs)) \<Rightarrow> joblib_load_metadata env (c # cs)
            | Some _ \<Rightarrow> Inr (default_metadata names)) of
        Inl x \<Rightarrow> (Some x, self3)
      | Inr md \<Rightarrow> (None, self3\<lparr>metadata := Some md, model_loaded := True\<rparr>))))))"

text \<open>
  \<^verbatim>\<open>load_models\<close>: the \<^verbatim>\<open>try\<close> with its handler \<^verbatim>\<open>except Exception\<close>. The result is what
  the call did, with the manager after it: \<open>Inr b\<close> when it returned the bool \<open>b\<close>,
  \<open>Inl x\<close> when the exception \<open>x\<close>, which the handler does not catch, left the call.
\<close>

definition load_models ::
  "load_env \<Rightarrow> model_manager \<Rightarrow> (base_exc + bool) \<times> model_manager"
where
  "load_models env self =
     (case load_models_try env self of
        (None, self') \<Rightarrow> (Inr True, self')
      | (Some (Exc e), self') \<Rightarrow> (Inr False, self'\<lparr>model_loaded := False\<rparr>)
      | (Some (BaseExc x), self') \<Rightarrow> (Inl x, self'))"


section \<open>The route /health\<close>





section \<open>The route /predict\<close>

text \<open>The risk level, from the \<^verbatim>\<open>if/elif\<close> chain on \<^verbatim>\<open>prob_fraude\<close>.\<close>

definition risk_level :: "pyfloat \<Rightarrow> string" where
  "risk_level prob_fraude =
     (if float_ge prob_fraude 0.8 then ''MUITO_ALTO''
      else if float_ge prob_fraude 0.6 then ''ALTO''
      else if float_ge prob_fraude 0.4 then ''MEDIO''
      else if float_ge prob_fraude 0.2 then ''BAIXO''
      else ''MUITO_BAIXO'')"

text \<open>
  \<^verbatim>\<open>abs(prob_fraude - 0.5) > 0.3\<close>, with the subtraction taken over the reals. The
  code subtracts doubles, so next to the bound the two can differ: for the double
  \<open>0.8\<close> the code's difference lies just above \<open>0.3\<close>.
\<close>

fun abs_diff_gt :: "pyfloat \<Rightarrow> real \<Rightarrow> real \<Rightarrow> bool" where
  "abs_diff_gt (Finite r) c d = (\<bar>r - c\<bar> > d)"
| "abs_diff_gt PosInf c d = True"
| "abs_diff_gt NegInf c d = True"
| "abs_diff_gt NaN c d = False"

text \<open>
  \<^verbatim>\<open>round(x, n)\<close>: to the nearest multiple of \<open>10 ^ -n\<close>, a tie going to the even one;
  an infinity or NaN is returned as it is. The rounding is of the real number that is
  written; the code rounds the double nearest to it, which on a decimal tie lies to one
  side.
\<close>

definition round_half_even :: "real \<Rightarrow> int" where
  "round_half_even x =
     (let f = \<lfloor>x\<rfloor>; d = x - real_of_int f in
      if d < 1/2 then f else if d > 1/2 then f + 1 else if even f then f else f + 1)"

fun py_round :: "pyfloat \<Rightarrow> nat \<Rightarrow> pyfloat" where
  "py_round (Finite r) n = Finite (real_of_int (round_half_even (r * 10 ^ n)) / 10 ^ n)"
| "py_round x n = x"

text \<open>
  The bodies of the responses. An error body has the message \<^verbatim>\<open>erro\<close>, the \<^verbatim>\<open>status\<close>
  string and the timestamp; the message is given by its kind and what it embeds.
\<close>

datatype erro_msg =
    ModeloNaoCarregado
  | DadosJsonNaoFornecidos
  | Validacao vmsg
  | CampoObrigatorioNaoEncontrado pyexc
  | ErroInternoDoServidor pyexc

record resultado_body =
  fraude :: int
  probabilidade_fraude :: pyfloat
  probabilidade_normal :: pyfloat
  status :: string
  nivel_risco :: string

record metadados_body =
  timestamp :: real
  processing_time_ms :: pyfloat
  modelo_tipo :: pyval
  versao_api :: string

record recomendacao_body =
  acao :: string
  confianca :: string

datatype predict_body =
    Erro erro_msg string real
  | Resposta resultado_body metadados_body recomendacao_body

text \<open>
  The body of the \<^verbatim>\<open>try\<close> of \<^verbatim>\<open>predict\<close>. \<open>start_time\<close> and \<open>end_time\<close> are the two readings
  of the clock, in seconds; \<open>request_json\<close> is the outcome of
  \<^verbatim>\<open>request.get_json(force=True)\<close>, an exception or the parsed JSON object.
\<close>

definition predict_try ::
  "(string \<Rightarrow> pyfloat option) \<Rightarrow> real \<Rightarrow> real \<Rightarrow> model_manager \<Rightarrow> pyexc + pydict \<Rightarrow>
   pyexc + predict_body \<times> nat"
where
  "predict_try str_float start_time end_time mm request_json =
     (if \<not> model_loaded mm then Inr (Erro ModeloNaoCarregado ''ERROR'' start_time, 503)
      else
     (case request_json of
        Inl e \<Rightarrow> Inl e
      | Inr dados \<Rightarrow>
     (if dados = [] then Inr (Erro DadosJsonNaoFornecidos ''ERROR'' start_time, 400)
      else
     (case validate_input str_float dados of
        Inl e \<Rightarrow> Inl e
      | Inr (is_valid, validation_message) \<Rightarrow>
     (if \<not> is_valid
      then Inr (Erro (Validacao validation_message) ''VALIDATION_ERROR'' start_time, 400)
      else
     (case preprocess_data str_float mm dados of
        Inl e \<Rightarrow> Inl e
      | Inr entrada \<Rightarrow>
     (case modelo mm of
        None \<Rightarrow> Inl AttributeError
      | Some clf \<Rightarrow>
     (case (case clf_predict clf entrada of Inl e \<Rightarrow> Inl e | Inr ys \<Rightarrow> py_index ys 0) of
        Inl e \<Rightarrow> Inl e
      | Inr resultado \<Rightarrow>
     (case (case clf_predict_proba clf entrada of Inl e \<Rightarrow> Inl e | Inr ps \<Rightarrow> py_index ps 0) of
        Inl e \<Rightarrow> Inl e
      | Inr probabilidades \<Rightarrow>
     (case py_index probabilidades 1 of
        Inl e \<Rightarrow> Inl e
      | Inr prob_fraude \<Rightarrow>
     (let risk = risk_level prob_fraude;
          processing_time = (end_time - start_time) * 1000
      in
      case py_index probabilidades 0 of
        Inl e \<Rightarrow> Inl e
      | Inr prob_normal \<Rightarrow>
     (case metadata mm of
        None \<Rightarrow> Inl AttributeError
      | Some md \<Rightarrow>
          Inr (Resposta
                 \<lparr>fraude = resultado,
                  probabilidade_fraude = py_round prob_fraude 4,
                  probabilidade_normal = py_round prob_normal 4,
                  status = (if resultado = 1 then ''FRAUDE'' else ''NORMAL''),
                  nivel_risco = risk\<rparr>
                 \<lparr>timestamp = start_time,
                  processing_time_ms = py_round (Finite processing_time) 2,
                  modelo_tipo = dict_get md ''modelo_tipo'' (PStr ''N/A''),
                  versao_api = ''2.0.0''\<rparr>
                 \<lparr>acao = (if resultado = 1 then ''BLOQUEAR'' else ''APROVAR''),
                  confianca = (if abs_diff_gt prob_fraude 0.5 0.3 then ''ALTA'' else ''MEDIA'')\<rparr>,
               200)))))))))))))"

text \<open>
  \<^verbatim>\<open>predict\<close>: the \<^verbatim>\<open>try\<close> with its two handlers, \<^verbatim>\<open>except KeyError\<close> first, then
  \<^verbatim>\<open>except Exception\<close>.
\<close>

definition predict ::
  "(string \<Rightarrow> pyfloat option) \<Rightarrow> real \<Rightarrow> real \<Rightarrow> model_manager \<Rightarrow> pyexc + pydict \<Rightarrow>
   predict_body \<times> nat"
where
  "predict str_float start_time end_time mm request_json =
     (case predict_try str_float start_time end_time mm request_json of
        Inr response \<Rightarrow> response
      | Inl (KeyError k) \<Rightarrow>
          (Erro (CampoObrigatorioNaoEncontrado (KeyError k)) ''VALIDATION_ERROR'' start_time, 400)
      | Inl e \<Rightarrow> (Erro (ErroInternoDoServidor e) ''INTERNAL_ERROR'' start_time, 500))"


section \<open>Example payloads\<close>

text \<open>
  The values of \<^verbatim>\<open>float\<close> on the strings that the examples use: \<^verbatim>\<open>float('-5')\<close> is
  \<open>-5.0\<close>, \<^verbatim>\<open>float('0.5')\<close> is \<open>0.5\<close>, and \<^verbatim>\<open>float('abc')\<close> raises ValueError.
\<close>

definition str_float_sample :: "string \<Rightarrow> pyfloat option" where
  "str_float_sample s =
     (if s = ''-5'' then Some (Finite (-5))
      else if s = ''0.5'' then Some (Finite (1/2))
      else None)"

text \<open>A payload with every \<open>V\<close> field set to \<open>v\<close> and \<open>Amount\<close> set to \<open>a\<close>.\<close>

definition payload_of :: "pyval \<Rightarrow> pyval \<Rightarrow> pydict" where
  "payload_of v a = map (\<lambda>i. (''V'' @ str_nat i, v)) [1..<29] @ [(''Amount'', a)]"


text \<open>The payload \<open>d\<close> after \<^verbatim>\<open>d[field] = v\<close>, for a key that \<open>d\<close> has.\<close>

definition payload_set :: "string \<Rightarrow> pyval \<Rightarrow> pydict \<Rightarrow> pydict" where
  "payload_set field v d = map (\<lambda>(k, x). if k = field then (k, v) else (k, x)) d"

text \<open>
  Three kinds of JSON values that the statements below speak of: a boolean or a number,
  a value whose conversion to float cannot overflow, and a number below zero.
\<close>

fun bool_or_number :: "pyval \<Rightarrow> bool" where
  "bool_or_number (PBool b) = True"
| "bool_or_number (PInt i) = True"
| "bool_or_number (PFloat x) = True"
| "bool_or_number v = False"

fun in_float_range :: "pyval \<Rightarrow> bool" where
  "in_float_range (PInt i) = int_fits_float i"
| "in_float_range v = True"

fun negative_number :: "pyval \<Rightarrow> bool" where
  "negative_number (PInt i) = (i < 0)"
| "negative_number (PFloat x) = float_lt x 0"
| "negative_number v = False"


section \<open>Example artifacts and environments\<close>

text \<open>A classifier that answers every batch with one label and one probability row.\<close>

definition constant_classifier :: "int \<Rightarrow> pyfloat list \<Rightarrow> classifier" where
  "constant_classifier label probs =
     \<lparr>clf_predict = (\<lambda>X. Inr [label]), clf_predict_proba = (\<lambda>X. Inr [probs])\<rparr>"

text \<open>A classifier whose every call raises.\<close>

definition failing_classifier :: "pyexc \<Rightarrow> classifier" where
  "failing_classifier e =
     \<lparr>clf_predict = (\<lambda>X. Inl e), clf_predict_proba = (\<lambda>X. Inl e)\<rparr>"

text \<open>
  A scaler that centres and scales, as a fitted StandardScaler does: its transform
  raises ValueError on a batch that holds an infinity, and lets NaN through.
\<close>

fun is_infinite :: "pyfloat \<Rightarrow> bool" where
  "is_infinite PosInf = True"
| "is_infinite NegInf = True"
| "is_infinite x = False"

fun centre_scale :: "real \<Rightarrow> real \<Rightarrow> pyfloat \<Rightarrow> pyfloat" where
  "centre_scale mean sd (Finite r) = Finite ((r - mean) / sd)"
| "centre_scale mean sd x = x"

definition standard_scaler :: "real \<Rightarrow> real \<Rightarrow> amount_scaler" where
  "standard_scaler mean sd =
     \<lparr>sc_transform =
        (\<lambda>X. if list_ex (list_ex is_infinite) X then Inl ValueError
             else Inr (map (map (centre_scale mean sd)) X))\<rparr>"

text \<open>A manager as a successful load leaves it, around a given classifier.\<close>

definition loaded_manager :: "classifier \<Rightarrow> model_manager" where
  "loaded_manager clf =
     \<lparr>modelo = Some clf, scaler = Some (standard_scaler 2 4),
      feature_names = Some default_feature_names,
      metadata = Some (default_metadata default_feature_names),
      model_loaded = True\<rparr>"

text \<open>
  Two file systems: one that holds only \<^verbatim>\<open>models/modelo_fraude.pkl\<close>, and one that holds
  the scaler, feature-name and metadata files under \<^verbatim>\<open>models/\<close> but no classifier. Every
  file that is read unpickles without error.
\<close>

definition env_with_files :: "string list \<Rightarrow> load_env" where
  "env_with_files files =
     \<lparr>os_path_exists = (\<lambda>p. p \<in> set files),
      joblib_load_modelo = (\<lambda>p. Inr (constant_classifier 0 [Finite 0.9, Finite 0.1])),
      joblib_load_scaler = (\<lambda>p. Inr (standard_scaler 2 4)),
      joblib_load_features = (\<lambda>p. Inr default_feature_names),
      joblib_load_metadata = (\<lambda>p. Inr (default_metadata default_feature_names)),
      standard_scaler_fit = (\<lambda>X. Inr (standard_scaler 2 4))\<rparr>"

text \<open>
  The file system that holds all four files under \<^verbatim>\<open>models/\<close>, and the same with a
  classifier file whose unpickling raises \<open>x\<close>.
\<close>

definition env_all_files :: load_env where
  "env_all_files =
     env_with_files
       [''models/modelo_fraude.pkl'', ''models/scaler_amount.pkl'',
        ''models/feature_names.pkl'', ''models/modelo_metadata.pkl'']"

definition env_load_raises :: "raised \<Rightarrow> load_env" where
  "env_load_raises x = env_all_files\<lparr>joblib_load_modelo := (\<lambda>p. Inl x)\<rparr>"

definition env_classifier_only :: load_env where
  "env_classifier_only = env_with_files [''models/modelo_fraude.pkl'']"

definition env_no_classifier :: load_env where
  "env_no_classifier =
     env_with_files
       [''models/scaler_amount.pkl'', ''models/feature_names.pkl'',
        ''models/modelo_metadata.pkl'']"


section \<open>Conversion of integers\<close>

lemma bit_length_le: "n < 2 ^ k \<Longrightarrow> bit_length n \<le> k"
proof (induction k arbitrary: n)
  case 0
  then show ?case by (simp add: bit_length.simps)
next
  case (Suc k)
  show ?case
  proof (cases "n = 0")
    case True
    then show ?thesis by (simp add: bit_length.simps)
  next
    case False
    have "n div 2 < 2 ^ k" using Suc.prems by auto
    then have "bit_length (n div 2) \<le> k" by (rule Suc.IH)
    then show ?thesis using False by (subst bit_length.simps) simp
  qed
qed

text \<open>An integer below \<open>2 ^ 53\<close> in magnitude converts to itself.\<close>

lemma double_of_int_small: "\<bar>i\<bar> < 2 ^ 53 \<Longrightarrow> double_of_int i = i"
proof -
  assume "\<bar>i\<bar> < 2 ^ 53"
  then have "nat \<bar>i\<bar> < 2 ^ 53" by (simp add: nat_less_iff)
  then have "bit_length (nat \<bar>i\<bar>) - 53 = 0" using bit_length_le by fastforce
  then show ?thesis by (simp add: double_of_int_def Let_def mult_sgn_abs)
qed


section \<open>Validation: the three checks\<close>

lemma required_fields_eq:
  "required_fields =
     [''V1'', ''V2'', ''V3'', ''V4'', ''V5'', ''V6'', ''V7'', ''V8'', ''V9'', ''V10'',
      ''V11'', ''V12'', ''V13'', ''V14'', ''V15'', ''V16'', ''V17'', ''V18'', ''V19'',
      ''V20'', ''V21'', ''V22'', ''V23'', ''V24'', ''V25'', ''V26'', ''V27'', ''V28'',
      ''Amount'']"
  by code_simp

lemma Amount_required: "''Amount'' \<in> set required_fields"
  by (simp add: required_fields_def)

lemma V_required: "i \<in> set [1..<29] \<Longrightarrow> ''V'' @ str_nat i \<in> set required_fields"
  by (simp add: required_fields_def)

lemma payload_of_eq:
  "payload_of v a =
     [(''V1'', v), (''V2'', v), (''V3'', v), (''V4'', v), (''V5'', v), (''V6'', v), (''V7'', v),
      (''V8'', v), (''V9'', v), (''V10'', v), (''V11'', v), (''V12'', v), (''V13'', v),
      (''V14'', v), (''V15'', v), (''V16'', v), (''V17'', v), (''V18'', v), (''V19'', v),
      (''V20'', v), (''V21'', v), (''V22'', v), (''V23'', v), (''V24'', v), (''V25'', v),
      (''V26'', v), (''V27'', v), (''V28'', v), (''Amount'', a)]"
  by code_simp

lemma map_of_payload_of:
  "map_of (payload_of v a) f =
     (if f = ''Amount'' then Some a else if f \<in> set required_fields then Some v else None)"
  unfolding payload_of_eq required_fields_eq by simp

lemma payload_set_V1:
  "payload_set ''V1'' w (payload_of v a) = (''V1'', w) # tl (payload_of v a)"
  unfolding payload_of_eq by (simp add: payload_set_def)

text \<open>The type-check loop runs to its end exactly when every field converts.\<close>

lemma check_types_all_ok:
  "(\<forall>f\<in>set fs. \<exists>v x. map_of d f = Some v \<and> py_float sf v = Inr x) \<Longrightarrow>
   check_types sf d fs = None"
  by (induction fs) (auto simp: getitem_def)

lemma check_types_None:
  "check_types sf d fs = None \<Longrightarrow>
   \<forall>f\<in>set fs. \<exists>v x. map_of d f = Some v \<and> py_float sf v = Inr x"
  by (induction fs) (auto simp: getitem_def split: sum.splits option.splits if_splits)

lemma check_types_Some_not_valid:
  "check_types sf d fs = Some r \<Longrightarrow> r \<noteq> Inr (True, m)"
  by (induction fs) (auto simp: getitem_def split: sum.splits option.splits if_splits)

text \<open>
  The order of the checks: a missing key decides the result whatever the values are, and
  a result of the type-check loop decides it whatever the amount is.
\<close>

lemma validate_input_missing_first:
  "filter (\<lambda>field. map_of dados field = None) required_fields = m # ms \<Longrightarrow>
   validate_input sf dados = Inr (False, CamposNaoEncontrados (m # ms))"
  by (simp add: validate_input_def)

lemma validate_input_types_before_range:
  "filter (\<lambda>field. map_of dados field = None) required_fields = [] \<Longrightarrow>
   check_types sf dados required_fields = Some r \<Longrightarrow>
   validate_input sf dados = r"
  by (simp add: validate_input_def)

lemma validate_ok_fields:
  assumes "validate_input sf dados = Inr (True, msg)"
  shows "\<forall>f\<in>set required_fields. \<exists>v x. map_of dados f = Some v \<and> py_float sf v = Inr x"
proof -
  have m: "filter (\<lambda>field. map_of dados field = None) required_fields = []"
    using assms by (auto simp: validate_input_def Let_def split: if_splits)
  have "check_types sf dados required_fields = None"
  proof (cases "check_types sf dados required_fields")
    case None
    then show ?thesis .
  next
    case (Some r)
    then have "validate_input sf dados = r"
      using m by (rule validate_input_types_before_range [rotated])
    then show ?thesis
      using assms check_types_Some_not_valid [OF Some, of msg] by simp
  qed
  then show ?thesis by (rule check_types_None)
qed

lemma bool_or_number_float:
  "bool_or_number v \<Longrightarrow> in_float_range v \<Longrightarrow> \<exists>x. py_float sf v = Inr x"
  by (cases v) auto

lemma not_negative_lt_zero:
  "bool_or_number v \<Longrightarrow> \<not> negative_number v \<Longrightarrow> py_lt_zero v = Inr False"
  by (cases v) auto

lemma negative_lt_zero:
  "negative_number v \<Longrightarrow> py_lt_zero v = Inr True"
  by (cases v) auto

text \<open>
  A negative amount given as a number (an int or a float) is reported with the amount
  message, once every field is present and converts.
\<close>

lemma validate_input_negative_number:
  assumes all: "\<forall>f\<in>set required_fields. \<exists>v x. map_of dados f = Some v \<and> py_float sf v = Inr x"
    and amount: "map_of dados ''Amount'' = Some a"
    and neg: "negative_number a"
  shows "validate_input sf dados = Inr (False, AmountNegativo)"
proof -
  have present: "filter (\<lambda>field. map_of dados field = None) required_fields = []"
    using all by (auto simp: filter_empty_conv)
  have types: "check_types sf dados required_fields = None"
    using all by (rule check_types_all_ok)
  show ?thesis
    using negative_lt_zero [OF neg]
    by (simp add: validate_input_def present types getitem_def amount)
qed

text \<open>
  Claim C2. The claim: whenever all 29 keys are present, every value converts to float
  and the amount is negative, \<open>validate_input\<close> returns the failure with the amount
  message, also when the amount is a numeric string. The code compares the raw value
  with \<open>0\<close>: for the payload whose amount is the string \<^verbatim>\<open>'-5'\<close> (which \<^verbatim>\<open>float\<close> converts
  to \<open>-5.0\<close>), every \<open>V\<close> field being \<open>0\<close>, the comparison raises TypeError and
  \<open>validate_input\<close> returns nothing.
\<close>

theorem validate_input_negative_string_amount_raises:
  "py_float str_float_sample (PStr ''-5'') = Inr (Finite (- 5))
   \<and> validate_input str_float_sample (payload_of (PInt 0) (PStr ''-5'')) = Inl TypeError"
  unfolding payload_of_eq required_fields_eq validate_input_def
  by (simp add: getitem_def str_float_sample_def int_fits_float_def)

lemma huge_int_no_fit: "\<not> int_fits_float (10 ^ 400)"
  by (simp add: int_fits_float_def)

text \<open>
  Claim C5. The claim: the checks run in the order missing keys, types, range, and a
  required value that does not convert to float is reported as that type failure. For
  the payload whose \<open>V1\<close> is the integer \<open>10 ^ 400\<close>, every other field being \<open>0\<close>,
  \<^verbatim>\<open>float\<close> raises OverflowError, which the handler of the type check does not catch:
  \<open>validate_input\<close> raises it and reports no type failure.
\<close>

theorem validate_input_huge_int_raises:
  "py_float str_float_sample (PInt (10 ^ 400)) = Inl OverflowError
   \<and> validate_input str_float_sample
        (payload_set ''V1'' (PInt (10 ^ 400)) (payload_of (PInt 0) (PInt 0)))
       = Inl OverflowError"
  unfolding payload_set_V1 unfolding payload_of_eq required_fields_eq validate_input_def
  by (simp add: getitem_def huge_int_no_fit del: power_numeral)

text \<open>
  Claim C10, as amended. When all 29 keys are present, every required value is a
  boolean or a number whose conversion to float does not overflow, and the amount is not
  a number below zero, \<open>validate_input\<close> returns success: a boolean converts to \<open>1.0\<close>
  or \<open>0.0\<close>, and a boolean amount is not below zero.
\<close>

theorem validate_input_bools_and_numbers:
  assumes all: "\<forall>f\<in>set required_fields.
                  \<exists>v. map_of dados f = Some v \<and> bool_or_number v \<and> in_float_range v"
    and amount: "map_of dados ''Amount'' = Some a"
    and nonneg: "\<not> negative_number a"
  shows "validate_input str_float dados = Inr (True, DadosValidos)"
proof -
  have present: "filter (\<lambda>field. map_of dados field = None) required_fields = []"
    using all by (auto simp: filter_empty_conv)
  have "\<forall>f\<in>set required_fields.
          \<exists>v x. map_of dados f = Some v \<and> py_float str_float v = Inr x"
    using all bool_or_number_float by blast
  then have types: "check_types str_float dados required_fields = None"
    by (rule check_types_all_ok)
  have "bool_or_number a"
    using all amount Amount_required by fastforce
  then have "py_lt_zero a = Inr False"
    using nonneg by (rule not_negative_lt_zero)
  then show ?thesis
    by (simp add: validate_input_def present types getitem_def amount)
qed

theorem validate_input_bools_and_numbers_witness:
  "map_of (payload_of (PInt 3) (PBool True)) ''V7'' = Some (PInt 3)
   \<and> bool_or_number (PInt 3) \<and> in_float_range (PInt 3)
   \<and> map_of (payload_of (PInt 3) (PBool True)) ''Amount'' = Some (PBool True)
   \<and> bool_or_number (PBool True) \<and> \<not> negative_number (PBool True)
   \<and> validate_input str_float_sample (payload_of (PInt 3) (PBool True))
       = Inr (True, DadosValidos)"
proof -
  have h1: "\<forall>f\<in>set required_fields.
      \<exists>v. map_of (payload_of (PInt 3) (PBool True)) f = Some v
        \<and> bool_or_number v \<and> in_float_range v"
    by (simp add: map_of_payload_of int_fits_float_def)
  have h2: "map_of (payload_of (PInt 3) (PBool True)) ''Amount'' = Some (PBool True)"
    by (simp add: map_of_payload_of)
  have h3: "\<not> negative_number (PBool True)"
    by simp
  show ?thesis
    using validate_input_bools_and_numbers [OF h1 h2 h3, of str_float_sample] h2
    by (simp add: map_of_payload_of required_fields_eq int_fits_float_def)
qed

text \<open>
  The claim C10 as it was stated fails where the amount is a negative number: with every
  \<open>V\<close> field \<open>True\<close> and the amount \<open>-1\<close>, the range check rejects the payload.
\<close>

theorem validate_input_bool_with_negative_amount:
  "validate_input str_float_sample (payload_of (PBool True) (PInt (- 1)))
     = Inr (False, AmountNegativo)"
  unfolding payload_of_eq required_fields_eq validate_input_def
  by (simp add: getitem_def int_fits_float_def)


section \<open>Preprocessing: the feature vector\<close>

lemma collect_features_ok:
  "(\<forall>i\<in>set ns. \<exists>v x. map_of d (''V'' @ str_nat i) = Some v \<and> py_float sf v = Inr x) \<Longrightarrow>
   \<exists>vs. collect_features sf d ns = Inr vs \<and> length vs = length ns \<and>
     (\<forall>k<length ns. \<exists>w. map_of d (''V'' @ str_nat (ns ! k)) = Some w
        \<and> py_float sf w = Inr (vs ! k))"
proof (induction ns)
  case Nil
  then show ?case by simp
next
  case (Cons i ns)
  from Cons.prems obtain v x where
    vx: "map_of d (''V'' @ str_nat i) = Some v" "py_float sf v = Inr x"
    by auto
  from Cons obtain vs where
    vs: "collect_features sf d ns = Inr vs" "length vs = length ns"
      "\<forall>k<length ns. \<exists>w. map_of d (''V'' @ str_nat (ns ! k)) = Some w
          \<and> py_float sf w = Inr (vs ! k)"
    by auto
  have "collect_features sf d (i # ns) = Inr (x # vs)"
    using vx vs(1) by (simp add: getitem_def)
  moreover have "\<forall>k<length (i # ns). \<exists>w. map_of d (''V'' @ str_nat ((i # ns) ! k)) = Some w
      \<and> py_float sf w = Inr ((x # vs) ! k)"
    using vx vs(3) by (auto simp: nth_Cons split: nat.splits)
  ultimately show ?case using vs(2) by auto
qed

text \<open>
  Claim C6, as amended. For a payload that \<open>validate_input\<close> accepts and a manager that
  holds a scaler, there are 28 floats \<open>vs\<close>, the conversions of \<open>V1\<close> to \<open>V28\<close> in that
  order, and the float \<open>a\<close> of the amount, such that: whenever the scaler's transform of
  the one-entry batch of \<open>a\<close> returns, with \<open>y\<close> as its first entry, \<open>preprocess_data\<close>
  returns the single row \<open>vs\<close> followed by \<open>y\<close>, of length 29; and whenever the
  transform raises, \<open>preprocess_data\<close> raises the same exception.
\<close>

theorem preprocess_data_vector:
  assumes valid: "validate_input str_float dados = Inr (True, msg)"
    and sc: "scaler mm = Some sc"
  shows "\<exists>vs v a. length vs = 28
      \<and> (\<forall>k<28. \<exists>w. map_of dados (''V'' @ str_nat (Suc k)) = Some w
                   \<and> py_float str_float w = Inr (vs ! k))
      \<and> map_of dados ''Amount'' = Some v \<and> py_float str_float v = Inr a
      \<and> (\<forall>y r rs. sc_transform sc [[a]] = Inr ((y # r) # rs) \<longrightarrow>
            preprocess_data str_float mm dados = Inr [vs @ [y]] \<and> length (vs @ [y]) = 29)
      \<and> (\<forall>e. sc_transform sc [[a]] = Inl e \<longrightarrow> preprocess_data str_float mm dados = Inl e)"
proof -
  note fields = validate_ok_fields [OF valid]
  have "\<forall>i\<in>set [1..<29].
          \<exists>v x. map_of dados (''V'' @ str_nat i) = Some v \<and> py_float str_float v = Inr x"
    using fields V_required by blast
  from collect_features_ok [OF this] obtain vs where
    vs: "collect_features str_float dados [1..<29] = Inr vs" "length vs = length [1..<29]"
      "\<forall>k<length [1..<29]. \<exists>w. map_of dados (''V'' @ str_nat ([1..<29] ! k)) = Some w
          \<and> py_float str_float w = Inr (vs ! k)"
    by blast
  have len: "length vs = 28" using vs(2) by simp
  have each: "\<forall>k<28. \<exists>w. map_of dados (''V'' @ str_nat (Suc k)) = Some w
      \<and> py_float str_float w = Inr (vs ! k)"
  proof (intro allI impI)
    fix k :: nat assume k: "k < 28"
    have "k < length [1..<29]" using k by simp
    with vs(3) have "\<exists>w. map_of dados (''V'' @ str_nat ([1..<29] ! k)) = Some w
          \<and> py_float str_float w = Inr (vs ! k)"
      by blast
    moreover have "[1..<29] ! k = Suc k" using k by simp
    ultimately show "\<exists>w. map_of dados (''V'' @ str_nat (Suc k)) = Some w
        \<and> py_float str_float w = Inr (vs ! k)"
      by simp
  qed
  obtain v a where va: "map_of dados ''Amount'' = Some v" "py_float str_float v = Inr a"
    using fields Amount_required by blast
  have ok: "\<forall>y r rs. sc_transform sc [[a]] = Inr ((y # r) # rs) \<longrightarrow>
      preprocess_data str_float mm dados = Inr [vs @ [y]] \<and> length (vs @ [y]) = 29"
    using vs(1) sc va len by (simp add: preprocess_data_def getitem_def py_index_def)
  have raises: "\<forall>e. sc_transform sc [[a]] = Inl e \<longrightarrow>
      preprocess_data str_float mm dados = Inl e"
    using vs(1) sc va by (simp add: preprocess_data_def getitem_def)
  show ?thesis using len each va ok raises by blast
qed

theorem preprocess_data_vector_witness:
  "validate_input str_float_sample (payload_of (PInt 3) (PInt 10)) = Inr (True, DadosValidos)
   \<and> scaler (loaded_manager (failing_classifier ValueError)) = Some (standard_scaler 2 4)
   \<and> (\<exists>vs. length vs = 28 \<and> vs ! 0 = Finite 3 \<and> vs ! 27 = Finite 3
         \<and> preprocess_data str_float_sample (loaded_manager (failing_classifier ValueError))
              (payload_of (PInt 3) (PInt 10)) = Inr [vs @ [Finite 2]])"
proof -
  let ?P = "payload_of (PInt 3) (PInt 10)"
  let ?M = "loaded_manager (failing_classifier ValueError)"
  have h1: "validate_input str_float_sample ?P = Inr (True, DadosValidos)"
    unfolding payload_of_eq required_fields_eq validate_input_def
    by (simp add: getitem_def int_fits_float_def)
  have h2: "scaler ?M = Some (standard_scaler 2 4)"
    by (simp add: loaded_manager_def)
  from preprocess_data_vector [OF h1 h2] obtain vs v a where
    len: "length vs = 28"
    and each: "\<forall>k<28. \<exists>w. map_of ?P (''V'' @ str_nat (Suc k)) = Some w
                 \<and> py_float str_float_sample w = Inr (vs ! k)"
    and v: "map_of ?P ''Amount'' = Some v"
    and a: "py_float str_float_sample v = Inr a"
    and tr: "\<forall>y r rs. sc_transform (standard_scaler 2 4) [[a]] = Inr ((y # r) # rs) \<longrightarrow>
               preprocess_data str_float_sample ?M ?P = Inr [vs @ [y]]
               \<and> length (vs @ [y]) = 29"
    by blast
  have "v = PInt 10" using v by (simp add: map_of_payload_of)
  then have "a = Finite 10" using a by (simp add: int_fits_float_def double_of_int_small)
  then have "sc_transform (standard_scaler 2 4) [[a]] = Inr ((Finite 2 # []) # [])"
    by (simp add: standard_scaler_def)
  with tr have res: "preprocess_data str_float_sample ?M ?P = Inr [vs @ [Finite 2]]"
    by blast
  have s1: "str_nat (Suc 0) = ''1''" by code_simp
  have s28: "str_nat 28 = ''28''" by code_simp
  have "vs ! 0 = Finite 3"
    using each [rule_format, of 0]
    by (simp add: map_of_payload_of required_fields_eq s1 int_fits_float_def
        double_of_int_small)
  moreover have "vs ! 27 = Finite 3"
    using each [rule_format, of 27]
    by (simp add: map_of_payload_of required_fields_eq s28 int_fits_float_def
        double_of_int_small)
  ultimately show ?thesis using h1 h2 len res by blast
qed

text \<open>
  The claim C6 as it was stated, for every validated payload, fails where the scaler
  rejects the amount: the payload with every \<open>V\<close> field \<open>3\<close> and the amount
  \<^verbatim>\<open>Infinity\<close> passes \<open>validate_input\<close>, the scaler's transform raises ValueError on the
  infinity, and \<open>preprocess_data\<close> raises it and returns no vector.
\<close>

theorem preprocess_data_infinite_amount_raises:
  "validate_input str_float_sample (payload_of (PInt 3) (PFloat PosInf))
     = Inr (True, DadosValidos)
   \<and> preprocess_data str_float_sample (loaded_manager (failing_classifier ValueError))
        (payload_of (PInt 3) (PFloat PosInf)) = Inl ValueError"
proof -
  let ?P = "payload_of (PInt 3) (PFloat PosInf)"
  have v: "validate_input str_float_sample ?P = Inr (True, DadosValidos)"
    unfolding payload_of_eq required_fields_eq validate_input_def
    by (simp add: getitem_def int_fits_float_def)
  have c: "collect_features str_float_sample ?P [1..<29]
      = Inr (replicate 28 (Finite (real_of_int (double_of_int 3))))"
    unfolding payload_of_eq by code_simp
  have "preprocess_data str_float_sample (loaded_manager (failing_classifier ValueError)) ?P
      = Inl ValueError"
    unfolding preprocess_data_def c
    by (simp add: map_of_payload_of getitem_def loaded_manager_def standard_scaler_def)
  with v show ?thesis by simp
qed


section \<open>Scoring: risk level and recommended action\<close>

text \<open>
  Claim C4. The risk level of a fraud probability \<open>p\<close> follows the closed-open bins in
  descending priority: MUITO\_ALTO from \<open>0.8\<close>, ALTO on \<open>[0.6, 0.8)\<close>, MEDIO on
  \<open>[0.4, 0.6)\<close>, BAIXO on \<open>[0.2, 0.4)\<close> and MUITO\_BAIXO below \<open>0.2\<close>; each boundary
  belongs to the bin above it.
\<close>

theorem risk_level_bins:
  "(0.8 \<le> p \<longrightarrow> risk_level (Finite p) = ''MUITO_ALTO'')
   \<and> (0.6 \<le> p \<and> p < 0.8 \<longrightarrow> risk_level (Finite p) = ''ALTO'')
   \<and> (0.4 \<le> p \<and> p < 0.6 \<longrightarrow> risk_level (Finite p) = ''MEDIO'')
   \<and> (0.2 \<le> p \<and> p < 0.4 \<longrightarrow> risk_level (Finite p) = ''BAIXO'')
   \<and> (p < 0.2 \<longrightarrow> risk_level (Finite p) = ''MUITO_BAIXO'')
   \<and> risk_level (Finite 0.8) = ''MUITO_ALTO''
   \<and> risk_level (Finite 0.6) = ''ALTO''
   \<and> risk_level (Finite 0.4) = ''MEDIO''
   \<and> risk_level (Finite 0.2) = ''BAIXO''"
  by (simp add: risk_level_def)

theorem risk_level_bins_witness:
  "risk_level (Finite 0.93) = ''MUITO_ALTO''
   \<and> risk_level (Finite 0.7) = ''ALTO''
   \<and> risk_level (Finite 0.5) = ''MEDIO''
   \<and> risk_level (Finite 0.25) = ''BAIXO''
   \<and> risk_level (Finite 0.1999) = ''MUITO_BAIXO''"
  using risk_level_bins [of "0.93"] risk_level_bins [of "0.7"] risk_level_bins [of "0.5"]
    risk_level_bins [of "0.25"] risk_level_bins [of "0.1999"]
  by simp

text \<open>
  Two scored requests on the same payload. The classifier answers label \<open>0\<close> with fraud
  probability \<open>0.9\<close>: the risk level is MUITO\_ALTO and the action APROVAR. It answers
  label \<open>1\<close> with fraud probability \<open>0.1\<close>: the risk level is MUITO\_BAIXO and the
  action BLOQUEAR.
\<close>

lemma preprocess_example:
  "preprocess_data str_float_sample (loaded_manager clf) (payload_of (PInt 3) (PInt 10))
     = Inr [replicate 28 (Finite 3) @ [Finite 2]]"
proof -
  have c: "collect_features str_float_sample (payload_of (PInt 3) (PInt 10)) [1..<29]
      = Inr (replicate 28 (Finite (real_of_int (double_of_int 3))))"
    unfolding payload_of_eq by code_simp
  show ?thesis
    unfolding preprocess_data_def c
    by (simp add: map_of_payload_of getitem_def loaded_manager_def standard_scaler_def
        int_fits_float_def double_of_int_small py_index_def)
qed

lemma predict_example:
  "predict str_float_sample 0 1 (loaded_manager (constant_classifier 0 [Finite 0.1, Finite 0.9]))
     (Inr (payload_of (PInt 3) (PInt 10))) =
   (Resposta
      \<lparr>fraude = 0, probabilidade_fraude = Finite 0.9, probabilidade_normal = Finite 0.1,
       status = ''NORMAL'', nivel_risco = ''MUITO_ALTO''\<rparr>
      \<lparr>timestamp = 0, processing_time_ms = Finite 1000, modelo_tipo = PStr ''XGBoost'',
       versao_api = ''2.0.0''\<rparr>
      \<lparr>acao = ''APROVAR'', confianca = ''ALTA''\<rparr>, 200)"
  by code_simp

lemma predict_example_block:
  "predict str_float_sample 0 1 (loaded_manager (constant_classifier 1 [Finite 0.9, Finite 0.1]))
     (Inr (payload_of (PInt 3) (PInt 10))) =
   (Resposta
      \<lparr>fraude = 1, probabilidade_fraude = Finite 0.1, probabilidade_normal = Finite 0.9,
       status = ''FRAUDE'', nivel_risco = ''MUITO_BAIXO''\<rparr>
      \<lparr>timestamp = 0, processing_time_ms = Finite 1000, modelo_tipo = PStr ''XGBoost'',
       versao_api = ''2.0.0''\<rparr>
      \<lparr>acao = ''BLOQUEAR'', confianca = ''ALTA''\<rparr>, 200)"
  by code_simp

lemma validate_ok_nonempty:
  "validate_input sf dados = Inr (True, msg) \<Longrightarrow> dados \<noteq> []"
  using validate_ok_fields [of sf dados msg] Amount_required by fastforce

lemma py_index_0: "py_index xs 0 = Inr x \<Longrightarrow> \<exists>ys. xs = x # ys"
  by (cases xs) (auto simp: py_index_def)

text \<open>
  Every response of \<open>predict\<close> comes from a label of the classifier: its \<open>fraude\<close> field is
  the first label that \<open>clf_predict\<close> gave for the preprocessed payload, and the action
  follows that label.
\<close>

lemma predict_resposta_label:
  assumes "predict str_float start_time end_time mm request_json
             = (Resposta res meta recom, code)"
  shows "\<exists>dados entrada clf labels.
      request_json = Inr dados \<and> preprocess_data str_float mm dados = Inr entrada
      \<and> modelo mm = Some clf \<and> clf_predict clf entrada = Inr (fraude res # labels)
      \<and> (acao recom = ''BLOQUEAR'' \<longleftrightarrow> fraude res = 1)
      \<and> (acao recom = ''APROVAR'' \<longleftrightarrow> fraude res \<noteq> 1)"
proof -
  from assms have "predict_try str_float start_time end_time mm request_json
      = Inr (Resposta res meta recom, code)"
    by (auto simp: predict_def split: sum.splits pyexc.splits)
  then show ?thesis
    by (auto simp: predict_try_def Let_def dest!: py_index_0
        split: if_splits sum.splits option.splits prod.splits)
qed

text \<open>
  Claim C7. For a loaded manager and a payload that \<open>validate_input\<close> accepts and
  \<open>preprocess_data\<close> turns into \<open>entrada\<close>: when the classifier's \<open>predict\<close> gives the
  label \<open>resultado\<close> for \<open>entrada\<close> and its \<open>predict_proba\<close> gives a row of at least two
  probabilities, \<open>predict\<close> answers with code 200, the label in \<open>fraude\<close>, the risk level
  of the fraud probability, and the action BLOQUEAR exactly when \<open>resultado\<close> is \<open>1\<close>,
  APROVAR exactly when it is not. The action depends on the label alone: the
  probabilities are arbitrary here.
\<close>

theorem predict_acao_by_label:
  assumes loaded: "model_loaded mm"
    and valid: "validate_input str_float dados = Inr (True, msg)"
    and pre: "preprocess_data str_float mm dados = Inr entrada"
    and clf: "modelo mm = Some clf"
    and label: "clf_predict clf entrada = Inr (resultado # labels)"
    and proba: "clf_predict_proba clf entrada = Inr ((prob_normal # prob_fraude # ps) # rows)"
    and md: "metadata mm = Some md"
  shows "\<exists>res meta recom.
      predict str_float start_time end_time mm (Inr dados) = (Resposta res meta recom, 200)
      \<and> fraude res = resultado
      \<and> nivel_risco res = risk_level prob_fraude
      \<and> (acao recom = ''BLOQUEAR'' \<longleftrightarrow> resultado = 1)
      \<and> (acao recom = ''APROVAR'' \<longleftrightarrow> resultado \<noteq> 1)"
proof -
  have ne: "dados \<noteq> []" using valid by (rule validate_ok_nonempty)
  show ?thesis
    using loaded valid pre clf label proba md ne
    by (simp add: predict_def predict_try_def py_index_def Let_def)
qed

theorem predict_acao_by_label_witness:
  "validate_input str_float_sample (payload_of (PInt 3) (PInt 10)) = Inr (True, DadosValidos)
   \<and> clf_predict (constant_classifier 1 [Finite 0.9, Finite 0.1])
        [replicate 28 (Finite 3) @ [Finite 2]] = Inr [1]
   \<and> clf_predict_proba (constant_classifier 1 [Finite 0.9, Finite 0.1])
        [replicate 28 (Finite 3) @ [Finite 2]] = Inr [[Finite 0.9, Finite 0.1]]
   \<and> predict str_float_sample 0 1
        (loaded_manager (constant_classifier 1 [Finite 0.9, Finite 0.1]))
        (Inr (payload_of (PInt 3) (PInt 10))) =
       (Resposta
          \<lparr>fraude = 1, probabilidade_fraude = Finite 0.1, probabilidade_normal = Finite 0.9,
           status = ''FRAUDE'', nivel_risco = ''MUITO_BAIXO''\<rparr>
          \<lparr>timestamp = 0, processing_time_ms = Finite 1000, modelo_tipo = PStr ''XGBoost'',
           versao_api = ''2.0.0''\<rparr>
          \<lparr>acao = ''BLOQUEAR'', confianca = ''ALTA''\<rparr>, 200)
   \<and> clf_predict (constant_classifier 0 [Finite 0.1, Finite 0.9])
        [replicate 28 (Finite 3) @ [Finite 2]] = Inr [0]
   \<and> predict str_float_sample 0 1
        (loaded_manager (constant_classifier 0 [Finite 0.1, Finite 0.9]))
        (Inr (payload_of (PInt 3) (PInt 10))) =
       (Resposta
          \<lparr>fraude = 0, probabilidade_fraude = Finite 0.9, probabilidade_normal = Finite 0.1,
           status = ''NORMAL'', nivel_risco = ''MUITO_ALTO''\<rparr>
          \<lparr>timestamp = 0, processing_time_ms = Finite 1000, modelo_tipo = PStr ''XGBoost'',
           versao_api = ''2.0.0''\<rparr>
          \<lparr>acao = ''APROVAR'', confianca = ''ALTA''\<rparr>, 200)"
proof -
  let ?P = "payload_of (PInt 3) (PInt 10)"
  let ?X = "[replicate 28 (Finite 3) @ [Finite 2]]"
  let ?C1 = "constant_classifier 1 [Finite 0.9, Finite 0.1]"
  let ?C0 = "constant_classifier 0 [Finite 0.1, Finite 0.9]"
  have valid: "validate_input str_float_sample ?P = Inr (True, DadosValidos)"
    unfolding payload_of_eq required_fields_eq validate_input_def
    by (simp add: getitem_def int_fits_float_def)
  have l1: "model_loaded (loaded_manager ?C1)" and l0: "model_loaded (loaded_manager ?C0)"
    by (simp_all add: loaded_manager_def)
  have m1: "modelo (loaded_manager ?C1) = Some ?C1"
    and m0: "modelo (loaded_manager ?C0) = Some ?C0"
    by (simp_all add: loaded_manager_def)
  have d1: "metadata (loaded_manager ?C1) = Some (default_metadata default_feature_names)"
    and d0: "metadata (loaded_manager ?C0) = Some (default_metadata default_feature_names)"
    by (simp_all add: loaded_manager_def)
  have p1: "clf_predict ?C1 ?X = Inr (1 # [])"
    and q1: "clf_predict_proba ?C1 ?X = Inr ((Finite 0.9 # Finite 0.1 # []) # [])"
    and p0: "clf_predict ?C0 ?X = Inr (0 # [])"
    and q0: "clf_predict_proba ?C0 ?X = Inr ((Finite 0.1 # Finite 0.9 # []) # [])"
    by (simp_all add: constant_classifier_def)
  note t1 = predict_acao_by_label [OF l1 valid preprocess_example m1 p1 q1 d1, of 0 1]
  note t0 = predict_acao_by_label [OF l0 valid preprocess_example m0 p0 q0 d0, of 0 1]
  show ?thesis
    using t1 t0 valid p1 q1 p0 predict_example predict_example_block
    by simp
qed


section \<open>Health check\<close>





section \<open>Loading the artifacts\<close>

lemma find_path_None:
  "(\<forall>b\<in>set bs. \<not> ex (os_path_join b f)) \<Longrightarrow> find_path ex f bs = None"
  by (induction bs) (auto simp: Let_def)

lemma load_models_try_loaded:
  "load_models_try env self = (None, s) \<Longrightarrow> model_loaded s"
  by (auto simp: load_models_try_def Let_def split: sum.splits option.splits list.splits)

lemma load_models_try_locate_fails:
  "locate_models (os_path_exists env) model_files Map.empty = Inl e \<Longrightarrow>
   load_models_try env self = (Some (Exc e), self)"
  by (simp add: load_models_try_def)

lemma init_manager_not_loaded: "init_manager\<lparr>model_loaded := False\<rparr> = init_manager"
  by (simp add: init_manager_def)

text \<open>
  When no load raises outside \<^verbatim>\<open>Exception\<close>, no such exception leaves the \<^verbatim>\<open>try\<close>.
\<close>

lemma load_models_try_only_exceptions:
  assumes "\<And>p b. joblib_load_modelo env p \<noteq> Inl (BaseExc b)"
    and "\<And>p b. joblib_load_scaler env p \<noteq> Inl (BaseExc b)"
    and "\<And>p b. joblib_load_features env p \<noteq> Inl (BaseExc b)"
    and "\<And>p b. joblib_load_metadata env p \<noteq> Inl (BaseExc b)"
    and "\<And>X b. standard_scaler_fit env X \<noteq> Inl (BaseExc b)"
  shows "load_models_try env self \<noteq> (Some (BaseExc b), s)"
  using assms
  by (auto simp: load_models_try_def Let_def split: sum.splits option.splits list.splits)

text \<open>
  Claim C9, as amended. When the loads raise nothing outside \<^verbatim>\<open>Exception\<close>,
  \<open>load_models\<close> returns and propagates nothing: either the \<^verbatim>\<open>try\<close> ran to its end, and
  the call returns true with \<open>model_loaded\<close> set, or an exception \<open>e\<close> left the \<^verbatim>\<open>try\<close>,
  and the call returns false with \<open>model_loaded\<close> cleared.
\<close>

theorem load_models_catches_exceptions:
  assumes "\<And>p b. joblib_load_modelo env p \<noteq> Inl (BaseExc b)"
    and "\<And>p b. joblib_load_scaler env p \<noteq> Inl (BaseExc b)"
    and "\<And>p b. joblib_load_features env p \<noteq> Inl (BaseExc b)"
    and "\<And>p b. joblib_load_metadata env p \<noteq> Inl (BaseExc b)"
    and "\<And>X b. standard_scaler_fit env X \<noteq> Inl (BaseExc b)"
  shows "(\<exists>s. load_models_try env self = (None, s)
            \<and> load_models env self = (Inr True, s) \<and> model_loaded s)
       \<or> (\<exists>e s. load_models_try env self = (Some (Exc e), s)
            \<and> load_models env self = (Inr False, s\<lparr>model_loaded := False\<rparr>)
            \<and> model_loaded (snd (load_models env self)) = False)"
proof (cases "load_models_try env self")
  case (Pair r s)
  show ?thesis
  proof (cases r)
    case None
    then have "load_models env self = (Inr True, s)"
      using Pair by (simp add: load_models_def)
    moreover have "model_loaded s" using Pair None load_models_try_loaded by blast
    ultimately show ?thesis using Pair None by blast
  next
    case (Some x)
    show ?thesis
    proof (cases x)
      case (Exc e)
      then have "load_models env self = (Inr False, s\<lparr>model_loaded := False\<rparr>)"
        using Pair Some by (simp add: load_models_def)
      then show ?thesis using Pair Some Exc by simp
    next
      case (BaseExc b)
      then have "load_models_try env self = (Some (BaseExc b), s)"
        using Pair Some by simp
      then show ?thesis
        using load_models_try_only_exceptions [OF assms] by blast
    qed
  qed
qed

text \<open>
  Two loads: with all four files readable the call returns true; with a classifier file
  whose unpickling raises an \<^verbatim>\<open>Exception\<close> it returns false.
\<close>

lemma load_models_all_files:
  "fst (load_models env_all_files init_manager) = Inr True"
  by (simp add: load_models_def load_models_try_def model_files_def base_paths_def
      os_path_join_def env_all_files_def env_with_files_def init_manager_def)

lemma load_models_unpickling_error:
  "load_models (env_load_raises (Exc (ExternalError ''unpickling''))) init_manager
     = (Inr False, init_manager)"
  by (simp add: load_models_def load_models_try_def model_files_def base_paths_def
      os_path_join_def env_load_raises_def env_all_files_def env_with_files_def
      init_manager_def)

theorem load_models_catches_exceptions_witness:
  "fst (load_models env_all_files init_manager) = Inr True
   \<and> model_loaded (snd (load_models env_all_files init_manager))
   \<and> load_models (env_load_raises (Exc (ExternalError ''unpickling''))) init_manager
       = (Inr False, init_manager)
   \<and> model_loaded (snd (load_models (env_load_raises (Exc (ExternalError ''unpickling'')))
         init_manager)) = False"
proof -
  have a: "\<And>p b. joblib_load_modelo env_all_files p \<noteq> Inl (BaseExc b)"
    "\<And>p b. joblib_load_scaler env_all_files p \<noteq> Inl (BaseExc b)"
    "\<And>p b. joblib_load_features env_all_files p \<noteq> Inl (BaseExc b)"
    "\<And>p b. joblib_load_metadata env_all_files p \<noteq> Inl (BaseExc b)"
    "\<And>X b. standard_scaler_fit env_all_files X \<noteq> Inl (BaseExc b)"
    by (simp_all add: env_all_files_def env_with_files_def)
  let ?E = "env_load_raises (Exc (ExternalError ''unpickling''))"
  have b: "\<And>p b. joblib_load_modelo ?E p \<noteq> Inl (BaseExc b)"
    "\<And>p b. joblib_load_scaler ?E p \<noteq> Inl (BaseExc b)"
    "\<And>p b. joblib_load_features ?E p \<noteq> Inl (BaseExc b)"
    "\<And>p b. joblib_load_metadata ?E p \<noteq> Inl (BaseExc b)"
    "\<And>X b. standard_scaler_fit ?E X \<noteq> Inl (BaseExc b)"
    by (simp_all add: env_load_raises_def env_all_files_def env_with_files_def)
  have "model_loaded (snd (load_models env_all_files init_manager))"
    using load_models_catches_exceptions [OF a, of init_manager] load_models_all_files
    by auto
  moreover have "model_loaded (snd (load_models ?E init_manager)) = False"
    using load_models_catches_exceptions [OF b, of init_manager] load_models_unpickling_error
    by auto
  ultimately show ?thesis
    using load_models_all_files load_models_unpickling_error by simp
qed

text \<open>
  The claim C9 as it was stated, for any exception raised while an artifact is
  deserialized, fails where unpickling the classifier raises \<^verbatim>\<open>SystemExit\<close>: every file
  is found, the handler does not catch the exception, and it leaves \<open>load_models\<close>.
\<close>

theorem load_models_propagates_system_exit:
  "os_path_exists (env_load_raises (BaseExc SystemExit)) ''models/modelo_fraude.pkl''
   \<and> joblib_load_modelo (env_load_raises (BaseExc SystemExit)) ''models/modelo_fraude.pkl''
       = Inl (BaseExc SystemExit)
   \<and> load_models (env_load_raises (BaseExc SystemExit)) init_manager
       = (Inl SystemExit, init_manager)"
  by (simp add: load_models_def load_models_try_def model_files_def base_paths_def
      os_path_join_def env_load_raises_def env_all_files_def env_with_files_def
      init_manager_def)

text \<open>
  Claim C8. When the classifier file is in none of the candidate directories,
  \<open>load_models\<close> returns false and leaves the manager as it was but for \<open>model_loaded\<close>,
  which is false; and \<open>predict\<close> then answers every request with the error body
  "model not loaded" and code 503, whatever the payload, the scaler and the classifier
  are.
\<close>

theorem missing_classifier_unavailable:
  assumes "\<forall>base_path\<in>set base_paths.
             \<not> os_path_exists env (os_path_join base_path ''modelo_fraude.pkl'')"
  shows "load_models env self = (Inr False, self\<lparr>model_loaded := False\<rparr>)
     \<and> predict str_float start_time end_time (snd (load_models env self)) request_json
         = (Erro ModeloNaoCarregado ''ERROR'' start_time, 503)"
proof -
  have "find_path (os_path_exists env) ''modelo_fraude.pkl'' base_paths = None"
    using assms by (rule find_path_None)
  then have "locate_models (os_path_exists env) model_files Map.empty
      = Inl (FileNotFoundError ''modelo_fraude.pkl'')"
    by (simp add: model_files_def)
  then have "load_models_try env self
      = (Some (Exc (FileNotFoundError ''modelo_fraude.pkl'')), self)"
    by (rule load_models_try_locate_fails)
  then have l: "load_models env self = (Inr False, self\<lparr>model_loaded := False\<rparr>)"
    by (simp add: load_models_def)
  then show ?thesis
    by (simp add: predict_def predict_try_def)
qed

theorem missing_classifier_unavailable_witness:
  "\<not> os_path_exists env_no_classifier ''models/modelo_fraude.pkl''
   \<and> \<not> os_path_exists env_no_classifier ''../models/modelo_fraude.pkl''
   \<and> \<not> os_path_exists env_no_classifier ''./modelo_fraude.pkl''
   \<and> load_models env_no_classifier init_manager = (Inr False, init_manager)
   \<and> predict str_float_sample 3 4 (snd (load_models env_no_classifier init_manager))
        (Inr (payload_of (PInt 3) (PInt 10)))
       = (Erro ModeloNaoCarregado ''ERROR'' 3, 503)"
proof -
  have h: "\<forall>base_path\<in>set base_paths.
             \<not> os_path_exists env_no_classifier (os_path_join base_path ''modelo_fraude.pkl'')"
    by (simp add: base_paths_def os_path_join_def env_no_classifier_def env_with_files_def)
  have e: "\<not> os_path_exists env_no_classifier ''models/modelo_fraude.pkl''
   \<and> \<not> os_path_exists env_no_classifier ''../models/modelo_fraude.pkl''
   \<and> \<not> os_path_exists env_no_classifier ''./modelo_fraude.pkl''"
    by (simp add: env_no_classifier_def env_with_files_def)
  note t = missing_classifier_unavailable [OF h, of init_manager str_float_sample 3 4
        "Inr (payload_of (PInt 3) (PInt 10))"]
  from t have l: "load_models env_no_classifier init_manager = (Inr False, init_manager)"
    by (simp add: init_manager_not_loaded)
  from t have p: "predict str_float_sample 3 4 (snd (load_models env_no_classifier init_manager))
        (Inr (payload_of (PInt 3) (PInt 10)))
       = (Erro ModeloNaoCarregado ''ERROR'' 3, 503)"
    by (rule conjunct2)
  show ?thesis using e l p by blast
qed

text \<open>
  The search raises for every file but the scaler's and the metadata's, so a missing
  feature-name file ends the load, whatever else is present.
\<close>

lemma load_models_requires_feature_names:
  assumes "\<forall>base_path\<in>set base_paths.
             \<not> os_path_exists env (os_path_join base_path ''feature_names.pkl'')"
  shows "fst (load_models env self) = Inr False"
proof -
  have "find_path (os_path_exists env) ''feature_names.pkl'' base_paths = None"
    using assms by (rule find_path_None)
  then have "\<exists>e. locate_models (os_path_exists env) model_files Map.empty = Inl e"
    by (simp add: model_files_def split: option.splits)
  then obtain e where "load_models_try env self = (Some (Exc e), self)"
    using load_models_try_locate_fails by blast
  then show ?thesis by (simp add: load_models_def)
qed

text \<open>
  Claim C1. The claim: with the classifier file present and the feature-name file
  absent everywhere, \<open>load_models\<close> creates the default names, returns true and sets
  \<open>model_loaded\<close>. On the file system that holds only \<^verbatim>\<open>models/modelo_fraude.pkl\<close> the
  search raises FileNotFoundError for \<^verbatim>\<open>feature_names.pkl\<close> before anything is loaded:
  \<open>load_models\<close> returns false, \<open>model_loaded\<close> is false and no names are set.
\<close>

theorem load_models_missing_feature_names_fails:
  "os_path_exists env_classifier_only ''models/modelo_fraude.pkl''
   \<and> load_models env_classifier_only init_manager = (Inr False, init_manager)
   \<and> model_loaded init_manager = False \<and> feature_names init_manager = None"
  by (simp add: load_models_def load_models_try_def model_files_def base_paths_def
      os_path_join_def env_classifier_only_def env_with_files_def init_manager_def)

end
